theory Spec2Isabelle
  imports Main
begin

section \<open>Python values that travel in keyword arguments\<close>

text \<open>
  The keyword arguments of \<open>_batch_send\<close> are a Python dict. The values the function
  itself looks at are the flag \<open>raise_on_any_failure\<close> (tested for truth) and the four
  URL fragments \<open>path\<close>, \<open>restype\<close>, \<open>sas\<close>, \<open>timeout\<close> (formatted by an f-string).
  \<open>truthy\<close> is Python's truth value and \<open>format_value\<close> is what \<open>f"{v}"\<close> prints.
\<close>

datatype pyval = PNone | PBool bool | PInt int | PStr string

fun truthy :: "pyval \<Rightarrow> bool" where
  "truthy PNone = False"
| "truthy (PBool b) = b"
| "truthy (PInt i) = (i \<noteq> 0)"
| "truthy (PStr s) = (s \<noteq> [])"

fun str_of_nat :: "nat \<Rightarrow> string" where
  "str_of_nat n =
     (if n < 10 then [''0123456789'' ! n]
      else str_of_nat (n div 10) @ [''0123456789'' ! (n mod 10)])"

fun format_value :: "pyval \<Rightarrow> string" where
  "format_value PNone = ''None''"
| "format_value (PBool b) = (if b then ''True'' else ''False'')"
| "format_value (PInt i) = (if i < 0 then ''-'' @ str_of_nat (nat (- i)) else str_of_nat (nat i))"
| "format_value (PStr s) = s"

type_synonym batch_kwargs = "(string \<times> pyval) list"

text \<open>\<open>kwargs.pop(k, d)\<close>: the value under \<open>k\<close> (or \<open>d\<close>), and the dict without \<open>k\<close>.\<close>

definition pop_kw :: "string \<Rightarrow> pyval \<Rightarrow> batch_kwargs \<Rightarrow> pyval \<times> batch_kwargs" where
  "pop_kw k d kwargs =
     (case map_of kwargs k of
        None \<Rightarrow> (d, kwargs)
      | Some v \<Rightarrow> (v, filter (\<lambda>kv. fst kv \<noteq> k) kwargs))"

section \<open>Credentials, policies, configuration, transports, pipelines\<close>

text \<open>
  A credential is an opaque object; the code asks it three questions in a fixed order
  (\<open>hasattr(credential, 'get_token')\<close>, then two \<open>isinstance\<close> tests), and prints it in
  the error message. Nothing stops one object from answering yes to more than one.
\<close>

record credential =
  cred_str :: string
  has_get_token :: bool
  is_SharedKeyCredentialPolicy :: bool
  is_AzureSasCredential :: bool

type_synonym hosts = "(string \<times> string) list"

text \<open>
  The objects \<open>_create_pipeline\<close> receives and builds refer to one another: the policies
  are constructed from \<open>**kwargs\<close>, and \<open>kwargs\<close> may carry a configuration, a transport,
  a pipeline and more policies. \<open>SuppliedTransport\<close>, \<open>SuppliedPipeline\<close> and
  \<open>SuppliedPolicy\<close> are objects made by the caller, known by a name only. A slot of a
  policy list is \<open>None\<close> where Python has \<open>None\<close>.
\<close>

datatype pipeline_kwargs =
    Kwargs (kw_configuration: "config option")
           (kw_pipeline: "pipeline option")
           (kw_transport: "transport option")
           (kw_connection_timeout: "pyval option")
           (kw_read_timeout: "pyval option")
           (kw_additional_pipeline_policies: "policy option list option")
           (kw_other: "(string \<times> pyval) list")
and config =
    Configuration (headers_policy: "policy option")
                  (proxy_policy: "policy option")
                  (user_agent_policy: "policy option")
                  (retry_policy: "policy option")
                  (logging_policy: "policy option")
                  (cfg_transport: "transport option")
and transport =
    SuppliedTransport string
  | AioHttpTransport pipeline_kwargs
and pipeline =
    SuppliedPipeline string
  | AsyncPipeline "transport option" "policy option list"
and policy =
    QueueMessagePolicy
  | StorageContentValidation
  | StorageRequestHook pipeline_kwargs
  | AsyncBearerTokenCredentialPolicy credential string
  | SharedKeyCredentialPolicy credential
  | AzureSasCredentialPolicy credential
  | ContentDecodePolicy string
  | AsyncRedirectPolicy pipeline_kwargs
  | StorageHosts hosts pipeline_kwargs
  | AsyncStorageResponseHook pipeline_kwargs
  | DistributedTracingPolicy pipeline_kwargs
  | HttpLoggingPolicy pipeline_kwargs
  | StorageHeadersPolicy
  | SuppliedPolicy string


section \<open>Requests, responses, failures and observable effects\<close>

record subrequest =
  sub_method :: string
  sub_url :: string
  sub_headers :: "(string \<times> string) list"
  sub_body :: string

text \<open>
  The top-level request; \<open>http_method\<close> is its attribute \<open>method\<close>. \<open>multipart\<close> holds
  what \<open>set_multipart_mixed\<close> was given: the sub-requests, the policies each part is
  prepared with, and \<open>enforce_https\<close>.
\<close>

record request =
  http_method :: string
  url :: string
  headers :: "(string \<times> string) list"
  multipart :: "(subrequest list \<times> policy list \<times> bool) option"

text \<open>
  A response; the parts of a multipart response are responses themselves (the code reads
  \<open>status_code\<close> on both). \<open>payload\<close> is the sequence \<open>response.parts()\<close> iterates over.
\<close>

datatype response =
  HttpResponse (status_code: int) (resp_headers: "(string \<times> string) list")
               (body: string) (payload: "response list")

datatype py_exception =
    TypeError string
  | ImportError string
  | HttpResponseError response
  | PartialBatchErrorException string response "response list"
  | StorageServiceError response
  | TransportError string
  | IndexError string

text \<open>
  What \<open>_batch_send\<close> hands back: \<open>AsyncList\<close> over the materialised list, or the
  iterator \<open>response.parts()\<close> returned, none of its parts read yet; \<open>PyNone\<close> is Python's
  implicit \<open>return None\<close>.
\<close>

datatype batch_value =
    AsyncList "response list"
  | AsyncIterator "response list"
  | PyNone

text \<open>The calls that leave the function, in the order they are made.\<close>

datatype effect =
    CalledCreateConfiguration
  | ImportedAioHttpTransport
  | ConstructedAioHttpTransport
  | ConstructedAsyncPipeline
  | PipelineRun request batch_kwargs
  | CalledParts
  | ReadPart response

fun is_network_io :: "effect \<Rightarrow> bool" where
  "is_network_io (PipelineRun _ _) = True"
| "is_network_io (ReadPart _) = True"
| "is_network_io _ = False"

text \<open>
  The spec's taxonomy is language neutral. Its \<open>ConfigurationError\<close> is what the source
  raises as \<open>TypeError\<close> (lines 51 and 79) and \<open>ImportError\<close> (line 90); its
  \<open>PartialBatchFailure\<close> is \<open>PartialBatchErrorException\<close>.
\<close>

fun ConfigurationError :: "py_exception \<Rightarrow> bool" where
  "ConfigurationError (TypeError _) = True"
| "ConfigurationError (ImportError _) = True"
| "ConfigurationError _ = False"

fun PartialBatchFailure :: "py_exception \<Rightarrow> bool" where
  "PartialBatchFailure (PartialBatchErrorException _ _ _) = True"
| "PartialBatchFailure _ = False"

section \<open>The client: \<open>AsyncStorageAccountHostsMixin\<close>\<close>

text \<open>The attributes of \<open>self\<close> the two methods read or write.\<close>

record client =
  credential_policy :: "policy option"
  client_hosts :: hosts
  scheme :: string
  primary_hostname :: string
  api_version :: string

text \<open>\<open>__enter__\<close> (lines 50-51): raises at once; \<open>self\<close> is not touched.\<close>

definition enter :: "client \<Rightarrow> (py_exception + client) \<times> client \<times> effect list" where
  "enter self =
     (Inl (TypeError (''Async client only supports '' @ [CHR 0x27] @ ''async with'' @ [CHR 0x27] @ ''.'')),
      self, [])"

subsection \<open>\<open>_create_pipeline\<close> (lines 69-111)\<close>

text \<open>
  What the method takes from outside this file: \<open>create_configuration\<close> (of
  \<open>base_client\<close>), whether \<open>from azure.core.pipeline.transport import AioHttpTransport\<close>
  succeeds, and the three constants of \<open>constants\<close>.
\<close>

record build_env =
  create_configuration :: "pipeline_kwargs \<Rightarrow> config"
  aiohttp_importable :: bool
  CONNECTION_TIMEOUT :: pyval
  READ_TIMEOUT :: pyval
  STORAGE_OAUTH_SCOPE :: string

text \<open>Lines 72-79. \<open>None\<close> has no \<open>get_token\<close> and is an instance of neither class.\<close>

definition classify_credential :: "string \<Rightarrow> credential option \<Rightarrow> py_exception + policy option" where
  "classify_credential scope credential =
     (case credential of
        None \<Rightarrow> Inr None
      | Some c \<Rightarrow>
          if has_get_token c then Inr (Some (AsyncBearerTokenCredentialPolicy c scope))
          else if is_SharedKeyCredentialPolicy c then Inr (Some (SharedKeyCredentialPolicy c))
          else if is_AzureSasCredential c then Inr (Some (AzureSasCredentialPolicy c))
          else Inl (TypeError (''Unsupported credential: '' @ cred_str c)))"

text \<open>\<open>config.transport = v\<close> and \<open>kwargs.setdefault(k, d)\<close> for the two timeouts.\<close>

fun set_transport :: "transport option \<Rightarrow> config \<Rightarrow> config" where
  "set_transport t (Configuration h p u r l _) = Configuration h p u r l t"

fun setdefault_connection_timeout :: "pyval \<Rightarrow> pipeline_kwargs \<Rightarrow> pipeline_kwargs" where
  "setdefault_connection_timeout d (Kwargs c p t ct rt ap other) =
     Kwargs c p t (Some (case ct of None \<Rightarrow> d | Some v \<Rightarrow> v)) rt ap other"

fun setdefault_read_timeout :: "pyval \<Rightarrow> pipeline_kwargs \<Rightarrow> pipeline_kwargs" where
  "setdefault_read_timeout d (Kwargs c p t ct rt ap other) =
     Kwargs c p t ct (Some (case rt of None \<Rightarrow> d | Some v \<Rightarrow> v)) ap other"

text \<open>Lines 92-108: the list literal, slot by slot.\<close>

definition builtin_policies :: "config \<Rightarrow> client \<Rightarrow> pipeline_kwargs \<Rightarrow> policy option list" where
  "builtin_policies config self kwargs =
     [Some QueueMessagePolicy,
      headers_policy config,
      proxy_policy config,
      user_agent_policy config,
      Some StorageContentValidation,
      Some (StorageRequestHook kwargs),
      credential_policy self,
      Some (ContentDecodePolicy ''utf-8''),
      Some (AsyncRedirectPolicy kwargs),
      Some (StorageHosts (client_hosts self) kwargs),
      retry_policy config,
      logging_policy config,
      Some (AsyncStorageResponseHook kwargs),
      Some (DistributedTracingPolicy kwargs),
      Some (HttpLoggingPolicy kwargs)]"

text \<open>Lines 92-110: a list is true in Python when it is not empty.\<close>

definition build_policies :: "config \<Rightarrow> client \<Rightarrow> pipeline_kwargs \<Rightarrow> policy option list" where
  "build_policies config self kwargs =
     (let policies = builtin_policies config self kwargs in
      case kw_additional_pipeline_policies kwargs of
        None \<Rightarrow> policies
      | Some extra \<Rightarrow> if extra \<noteq> [] then policies @ extra else policies)"

text \<open>
  \<open>create_configuration\<close> is declared to return a \<open>Configuration\<close> and is taken to do so.
  Python shares one configuration object between \<open>kwargs\<close> and \<open>config\<close>; here the
  policies keep the \<open>kwargs\<close> they were constructed from as a value.
\<close>

text \<open>
  The method. It returns the outcome (the raised exception, or the pair of configuration
  and pipeline), \<open>self\<close> as the method leaves it, and the outside calls it made. Objects
  (configurations, pipelines, transports) are true in Python, so \<open>kwargs.get(k)\<close> is true
  exactly when the key holds one.
\<close>

definition create_pipeline ::
  "build_env \<Rightarrow> client \<Rightarrow> credential option \<Rightarrow> pipeline_kwargs
     \<Rightarrow> (py_exception + config \<times> pipeline) \<times> client \<times> effect list" where
  "create_pipeline env self credential kwargs =
     (let self0 = self\<lparr>credential_policy := None\<rparr> in
      (case classify_credential (STORAGE_OAUTH_SCOPE env) credential of
         Inl e \<Rightarrow> (Inl e, self0, [])
       | Inr cp \<Rightarrow>
          (let self1 = self0\<lparr>credential_policy := cp\<rparr>;
               config = (case kw_configuration kwargs of
                           Some c \<Rightarrow> c
                         | None \<Rightarrow> create_configuration env kwargs);
               fx = (case kw_configuration kwargs of
                       Some c \<Rightarrow> []
                     | None \<Rightarrow> [CalledCreateConfiguration])
           in (case kw_pipeline kwargs of
                 Some p \<Rightarrow> (Inr (config, p), self1, fx)
               | None \<Rightarrow>
                  (let config1 = set_transport (kw_transport kwargs) config;
                       kwargs1 = setdefault_connection_timeout (CONNECTION_TIMEOUT env) kwargs;
                       kwargs2 = setdefault_read_timeout (READ_TIMEOUT env) kwargs1
                   in (case cfg_transport config1 of
                         Some t \<Rightarrow>
                           (Inr (config1, AsyncPipeline (cfg_transport config1)
                                            (build_policies config1 self1 kwargs2)),
                            self1, fx @ [ConstructedAsyncPipeline])
                       | None \<Rightarrow>
                           (if \<not> aiohttp_importable env
                            then (Inl (ImportError ''Unable to create async transport. Please check aiohttp is installed.''),
                                  self1, fx @ [ImportedAioHttpTransport])
                            else
                              (let config2 = set_transport (Some (AioHttpTransport kwargs2)) config1
                               in (Inr (config2, AsyncPipeline (cfg_transport config2)
                                                   (build_policies config2 self1 kwargs2)),
                                   self1,
                                   fx @ [ImportedAioHttpTransport, ConstructedAioHttpTransport,
                                         ConstructedAsyncPipeline])))))))))"

subsection \<open>\<open>_batch_send\<close> (lines 114-164)\<close>

text \<open>
  Outside this file: \<open>self._client._client.post\<close>, the request factory of the client of
  \<open>azure.core\<close>, which answers with a request or raises; \<open>self._pipeline.run\<close>, which
  answers with a response or raises; and the class hierarchy of \<open>response_handlers\<close>:
  whether \<open>PartialBatchErrorException\<close> is a subclass of \<open>HttpResponseError\<close>, so that the
  \<open>except\<close> clause of line 163 catches it.
\<close>

record batch_env =
  post :: "string \<Rightarrow> (string \<times> string) list \<Rightarrow> py_exception + request"
  run :: "request \<Rightarrow> batch_kwargs \<Rightarrow> py_exception + response"
  partial_batch_is_http_response_error :: bool

definition set_multipart_mixed :: "request \<Rightarrow> subrequest list \<Rightarrow> policy list \<Rightarrow> bool \<Rightarrow> request" where
  "set_multipart_mixed rq reqs policies enforce_https =
     rq\<lparr>multipart := Some (reqs, policies, enforce_https)\<rparr>"

text \<open>Lines 132-134: the policies of the parts; a policy object is true in Python.\<close>

definition part_policies :: "client \<Rightarrow> policy list" where
  "part_policies self =
     [StorageHeadersPolicy] @ (case credential_policy self of Some p \<Rightarrow> [p] | None \<Rightarrow> [])"

text \<open>
  Lines 120-130, up to the call of \<open>post\<close>: the flag, the two arguments \<open>url\<close> and
  \<open>headers\<close> of the call, and the remaining kwargs.
\<close>

definition batch_arguments ::
  "client \<Rightarrow> batch_kwargs \<Rightarrow> pyval \<times> string \<times> (string \<times> string) list \<times> batch_kwargs" where
  "batch_arguments self kwargs =
     (let (raise_on_any_failure, kwargs1) = pop_kw ''raise_on_any_failure'' (PBool True) kwargs;
          (path, kwargs2) = pop_kw ''path'' (PStr []) kwargs1;
          (restype, kwargs3) = pop_kw ''restype'' (PStr []) kwargs2;
          (sas, kwargs4) = pop_kw ''sas'' (PStr []) kwargs3;
          (timeout, kwargs5) = pop_kw ''timeout'' (PStr []) kwargs4
      in (raise_on_any_failure,
          scheme self @ ''://'' @ primary_hostname self @ ''/''
            @ format_value path @ ''?'' @ format_value restype
            @ ''comp=batch'' @ format_value sas @ format_value timeout,
          [(''x-ms-version'', api_version self)],
          kwargs5))"

text \<open>
  Lines 120-140: the call of \<open>post\<close>, whose exception leaves the method, and the request
  with its multipart body.
\<close>

definition batch_request ::
  "batch_env \<Rightarrow> client \<Rightarrow> subrequest list \<Rightarrow> batch_kwargs
     \<Rightarrow> py_exception + pyval \<times> request \<times> batch_kwargs" where
  "batch_request env self reqs kwargs =
     (let (raise_on_any_failure, u, hs, kwargs') = batch_arguments self kwargs in
      case post env u hs of
        Inl e \<Rightarrow> Inl e
      | Inr request \<Rightarrow>
          (let policies = part_policies self
           in Inr (raise_on_any_failure, set_multipart_mixed request reqs policies False, kwargs')))"

text \<open>Lines 153-154: the \<open>async for\<close> loop, reading one part after the other.\<close>

fun read_parts :: "response list \<Rightarrow> response list \<Rightarrow> effect list \<Rightarrow> response list \<times> effect list" where
  "read_parts [] parts_list fx = (parts_list, fx)"
| "read_parts (part # parts) parts_list fx = read_parts parts (parts_list @ [part]) (fx @ [ReadPart part])"

text \<open>
  Line 155: \<open>any(p for p in parts_list if not 200 <= p.status_code < 300)\<close> asks for the
  truth of the selected objects themselves; a response object is true.
\<close>

definition object_truth :: "response \<Rightarrow> bool" where
  "object_truth p = True"

definition any_failure :: "response list \<Rightarrow> bool" where
  "any_failure parts_list =
     list_ex object_truth
       (filter (\<lambda>p. \<not> (200 \<le> status_code p \<and> status_code p < 300)) parts_list)"

text \<open>Lines 148-162: the body of the \<open>try\<close>.\<close>

definition batch_try :: "pyval \<Rightarrow> response \<Rightarrow> (py_exception + batch_value) \<times> effect list" where
  "batch_try raise_on_any_failure response =
     (if status_code response \<notin> set [202] then (Inl (HttpResponseError response), [])
      else
        let parts = payload response in
        if truthy raise_on_any_failure then
          let (parts_list, fx) = read_parts parts [] [CalledParts] in
          if any_failure parts_list
          then (Inl (PartialBatchErrorException ''There is a partial failure in the batch operation.''
                       response parts_list), fx)
          else (Inr (AsyncList parts_list), fx)
        else (Inr (AsyncIterator parts), [CalledParts]))"

text \<open>Line 163: which exceptions the clause \<open>except HttpResponseError\<close> catches.\<close>

fun is_HttpResponseError :: "batch_env \<Rightarrow> py_exception \<Rightarrow> bool" where
  "is_HttpResponseError env (HttpResponseError _) = True"
| "is_HttpResponseError env (PartialBatchErrorException _ _ _) = partial_batch_is_http_response_error env"
| "is_HttpResponseError env _ = False"

text \<open>
  Modelled from the spec: \<open>process_storage_error\<close> of \<open>response_handlers\<close> is not among the
  sources. Section 4.5: a non-202 top-level response is converted to a StorageServiceError,
  decoded from that response (status, error code and message from its body and headers);
  PartialBatchFailure is distinct from StorageServiceError and is the failure of a batch
  whose top-level exchange succeeded, carrying all parts and the triggering response. The
  function always raises; \<open>Inr ()\<close> would be a plain return.
\<close>

fun process_storage_error :: "py_exception \<Rightarrow> py_exception + unit" where
  "process_storage_error (HttpResponseError response) = Inl (StorageServiceError response)"
| "process_storage_error error = Inl error"

text \<open>
  The whole method: an exception of \<open>post\<close> or of \<open>run\<close> is raised outside the \<open>try\<close>
  and leaves as it is.
\<close>

definition batch_send ::
  "batch_env \<Rightarrow> client \<Rightarrow> subrequest list \<Rightarrow> batch_kwargs
     \<Rightarrow> (py_exception + batch_value) \<times> effect list" where
  "batch_send env self reqs kwargs =
     (case batch_request env self reqs kwargs of
        Inl e \<Rightarrow> (Inl e, [])
      | Inr (raise_on_any_failure, request, kwargs') \<Rightarrow>
          (case run env request kwargs' of
             Inl e \<Rightarrow> (Inl e, [PipelineRun request kwargs'])
           | Inr response \<Rightarrow>
               (case batch_try raise_on_any_failure response of
                  (Inr v, fx) \<Rightarrow> (Inr v, PipelineRun request kwargs' # fx)
                | (Inl error, fx) \<Rightarrow>
                    if is_HttpResponseError env error
                    then (case process_storage_error error of
                            Inl e \<Rightarrow> (Inl e, PipelineRun request kwargs' # fx)
                          | Inr _ \<Rightarrow> (Inr PyNone, PipelineRun request kwargs' # fx))
                    else (Inl error, PipelineRun request kwargs' # fx))))"

section \<open>\<open>AsyncTransportWrapper\<close> (lines 167-188)\<close>

text \<open>
  A transport is an object with a state of its own (\<open>'s\<close>) and three methods acting on
  it. The wrapper holds a reference to one: its methods act on the same state.
  \<open>init\<close>, \<open>open_wrapper\<close>, \<open>aenter\<close> and \<open>aexit\<close> are \<open>__init__\<close>, \<open>open\<close>, \<open>__aenter__\<close>
  and \<open>__aexit__\<close>; the four bodies are \<open>pass\<close>.
\<close>

record ('rq, 'kw, 'rs, 's) async_transport =
  transport_send :: "'rq \<Rightarrow> 'kw \<Rightarrow> 's \<Rightarrow> 'rs \<times> 's"
  transport_open :: "'s \<Rightarrow> 's"
  transport_close :: "'s \<Rightarrow> 's"

record ('rq, 'kw, 'rs, 's) AsyncTransportWrapper =
  wrapped_transport :: "('rq, 'kw, 'rs, 's) async_transport"

definition init :: "('rq, 'kw, 'rs, 's) async_transport \<Rightarrow> ('rq, 'kw, 'rs, 's) AsyncTransportWrapper" where
  "init async_transport = \<lparr>wrapped_transport = async_transport\<rparr>"

definition send :: "('rq, 'kw, 'rs, 's) AsyncTransportWrapper \<Rightarrow> 'rq \<Rightarrow> 'kw \<Rightarrow> 's \<Rightarrow> 'rs \<times> 's" where
  "send self request kwargs s = transport_send (wrapped_transport self) request kwargs s"

definition open_wrapper :: "('rq, 'kw, 'rs, 's) AsyncTransportWrapper \<Rightarrow> 's \<Rightarrow> unit \<times> 's" where
  "open_wrapper self s = ((), s)"

definition close :: "('rq, 'kw, 'rs, 's) AsyncTransportWrapper \<Rightarrow> 's \<Rightarrow> unit \<times> 's" where
  "close self s = ((), s)"

definition aenter :: "('rq, 'kw, 'rs, 's) AsyncTransportWrapper \<Rightarrow> 's \<Rightarrow> unit \<times> 's" where
  "aenter self s = ((), s)"

definition aexit :: "('rq, 'kw, 'rs, 's) AsyncTransportWrapper \<Rightarrow> 'a \<Rightarrow> 's \<Rightarrow> unit \<times> 's" where
  "aexit self args s = ((), s)"

text \<open>
  A transport to try the wrapper on: a session that refuses to send once it is closed and
  counts what it has sent.
\<close>

record session =
  is_open :: bool
  sent :: "string list"

definition session_transport :: "(string, unit, string option, session) async_transport" where
  "session_transport =
     \<lparr>transport_send = (\<lambda>request kwargs s.
          if is_open s then (Some (''response to '' @ request), s\<lparr>sent := sent s @ [request]\<rparr>)
          else (None, s)),
      transport_open = (\<lambda>s. s\<lparr>is_open := True\<rparr>),
      transport_close = (\<lambda>s. s\<lparr>is_open := False\<rparr>)\<rparr>"

section \<open>Reading results, the chain of section 4.2, and sample inputs\<close>

text \<open>The text an f-string puts for a key of \<open>kwargs\<close>: nothing when the key is absent.\<close>

definition kw_text :: "batch_kwargs \<Rightarrow> string \<Rightarrow> string" where
  "kw_text kwargs k = (case map_of kwargs k of None \<Rightarrow> [] | Some v \<Rightarrow> format_value v)"

text \<open>The policy list of the pipeline a call built (empty when it built none).\<close>

definition built_chain ::
  "(py_exception + config \<times> pipeline) \<times> client \<times> effect list \<Rightarrow> policy option list" where
  "built_chain r = (case fst r of Inr (_, AsyncPipeline _ policies) \<Rightarrow> policies | _ \<Rightarrow> [])"

text \<open>
  The chain as section 4.2 of the specification lists it, stage by stage: message shape;
  static headers (standard headers, proxy, user agent); content validation; request hook;
  credential policy; redirect; host selection; retry; response logging; response hook;
  distributed tracing; HTTP logging. This definition follows the specification, not the
  source; it is what \<open>builtin_policies\<close> is compared with.
\<close>

definition spec_policy_chain :: "config \<Rightarrow> client \<Rightarrow> pipeline_kwargs \<Rightarrow> policy option list" where
  "spec_policy_chain config self kwargs =
     [Some QueueMessagePolicy,
      headers_policy config, proxy_policy config, user_agent_policy config,
      Some StorageContentValidation,
      Some (StorageRequestHook kwargs),
      credential_policy self,
      Some (AsyncRedirectPolicy kwargs),
      Some (StorageHosts (client_hosts self) kwargs),
      retry_policy config,
      logging_policy config,
      Some (AsyncStorageResponseHook kwargs),
      Some (DistributedTracingPolicy kwargs),
      Some (HttpLoggingPolicy kwargs)]"

definition example_config :: config where
  "example_config =
     Configuration (Some (SuppliedPolicy ''headers'')) (Some (SuppliedPolicy ''proxy''))
       (Some (SuppliedPolicy ''user-agent'')) (Some (SuppliedPolicy ''retry''))
       (Some (SuppliedPolicy ''logging'')) None"

definition example_env :: "bool \<Rightarrow> build_env" where
  "example_env importable =
     \<lparr>create_configuration = (\<lambda>kwargs. example_config), aiohttp_importable = importable,
      CONNECTION_TIMEOUT = PInt 20, READ_TIMEOUT = PInt 60,
      STORAGE_OAUTH_SCOPE = ''https://storage.azure.com/.default''\<rparr>"

definition example_client :: client where
  "example_client =
     \<lparr>credential_policy = None, client_hosts = [(''primary'', ''acct.dfs.core.windows.net'')],
      scheme = ''https'', primary_hostname = ''acct.dfs.core.windows.net'',
      api_version = ''2021-08-06''\<rparr>"

definition example_credential :: "bool \<Rightarrow> bool \<Rightarrow> bool \<Rightarrow> credential" where
  "example_credential tok key sas =
     \<lparr>cred_str = ''cred'', has_get_token = tok, is_SharedKeyCredentialPolicy = key,
      is_AzureSasCredential = sas\<rparr>"

definition example_response :: "int \<Rightarrow> int list \<Rightarrow> response" where
  "example_response status part_statuses =
     HttpResponse status [] [] (map (\<lambda>st. HttpResponse st [] [] []) part_statuses)"

text \<open>
  Three sample request factories: one that makes a POST request of its arguments as they
  are; one that reads its \<open>url\<close> as a format template with no values to fill in, as the
  client of \<open>azure.core\<close> does, and leaves out the sections between slashes that hold a
  field; and one that raises.
\<close>

definition example_post :: "string \<Rightarrow> (string \<times> string) list \<Rightarrow> py_exception + request" where
  "example_post u hs = Inr \<lparr>http_method = ''POST'', url = u, headers = hs, multipart = None\<rparr>"

fun sections :: "string \<Rightarrow> string list" where
  "sections [] = [[]]"
| "sections (c # cs) =
     (if c = CHR ''/'' then [] # sections cs
      else (case sections cs of [] \<Rightarrow> [[c]] | s # ss \<Rightarrow> (c # s) # ss))"

fun join_sections :: "string list \<Rightarrow> string" where
  "join_sections [] = []"
| "join_sections [s] = s"
| "join_sections (s # t # ss) = s @ ''/'' @ join_sections (t # ss)"

definition template_post :: "string \<Rightarrow> (string \<times> string) list \<Rightarrow> py_exception + request" where
  "template_post u hs =
     Inr \<lparr>http_method = ''POST'',
          url = join_sections (filter (\<lambda>s. CHR ''{'' \<notin> set s) (sections u)),
          headers = hs, multipart = None\<rparr>"

definition raising_post :: "string \<Rightarrow> (string \<times> string) list \<Rightarrow> py_exception + request" where
  "raising_post u hs = Inl (IndexError ''Replacement index 0 out of range for positional args tuple'')"

definition example_batch_env :: "int \<Rightarrow> int list \<Rightarrow> bool \<Rightarrow> batch_env" where
  "example_batch_env status part_statuses sub =
     \<lparr>post = example_post,
      run = (\<lambda>request kwargs. Inr (example_response status part_statuses)),
      partial_batch_is_http_response_error = sub\<rparr>"

definition example_reqs :: "subrequest list" where
  "example_reqs =
     [\<lparr>sub_method = ''DELETE'', sub_url = ''/fs/a'', sub_headers = [], sub_body = []\<rparr>,
      \<lparr>sub_method = ''DELETE'', sub_url = ''/fs/b'', sub_headers = [], sub_body = []\<rparr>,
      \<lparr>sub_method = ''DELETE'', sub_url = ''/fs/c'', sub_headers = [], sub_body = []\<rparr>]"

text \<open>The request \<open>example_post\<close> gives for \<open>example_client\<close>, \<open>example_reqs\<close> and no kwargs.\<close>

definition example_request :: request where
  "example_request =
     \<lparr>http_method = ''POST'', url = ''https://acct.dfs.core.windows.net/?comp=batch'',
      headers = [(''x-ms-version'', ''2021-08-06'')],
      multipart = Some (example_reqs, [StorageHeadersPolicy], False)\<rparr>"

section \<open>Facts about the pieces\<close>

subsection \<open>Keyword arguments\<close>

lemma map_of_filter_key:
  "map_of (filter (\<lambda>kv. fst kv \<noteq> k) kwargs) k' = (if k' = k then None else map_of kwargs k')"
  by (induction kwargs) auto

lemma pop_kw_value: "fst (pop_kw k d kwargs) = (case map_of kwargs k of None \<Rightarrow> d | Some v \<Rightarrow> v)"
  by (simp add: pop_kw_def split: option.splits)

lemma pop_kw_rest: "map_of (snd (pop_kw k d kwargs)) k' = (if k' = k then None else map_of kwargs k')"
  by (auto simp: pop_kw_def map_of_filter_key split: option.splits)

subsection \<open>The batch request and the \<open>try\<close> block\<close>

lemma batch_arguments_flag:
  "fst (batch_arguments self kwargs) =
     (case map_of kwargs ''raise_on_any_failure'' of None \<Rightarrow> PBool True | Some v \<Rightarrow> v)"
  by (simp add: batch_arguments_def Let_def split_beta pop_kw_value)

lemma batch_arguments_url:
  "fst (snd (batch_arguments self kwargs)) =
     scheme self @ ''://'' @ primary_hostname self @ ''/'' @ kw_text kwargs ''path'' @ ''?''
       @ kw_text kwargs ''restype'' @ ''comp=batch'' @ kw_text kwargs ''sas''
       @ kw_text kwargs ''timeout''"
  by (simp add: batch_arguments_def Let_def split_beta pop_kw_value pop_kw_rest kw_text_def
      split: option.splits)

lemma batch_arguments_headers:
  "fst (snd (snd (batch_arguments self kwargs))) = [(''x-ms-version'', api_version self)]"
  by (simp add: batch_arguments_def Let_def split_beta)

lemma batch_request_eq:
  "batch_request env self reqs kwargs =
     (case post env (fst (snd (batch_arguments self kwargs))) [(''x-ms-version'', api_version self)] of
        Inl e \<Rightarrow> Inl e
      | Inr request \<Rightarrow>
          Inr (fst (batch_arguments self kwargs),
               request\<lparr>multipart := Some (reqs, part_policies self, False)\<rparr>,
               snd (snd (snd (batch_arguments self kwargs)))))"
  by (simp add: batch_request_def Let_def split_beta batch_arguments_headers set_multipart_mixed_def
      split: sum.splits)

lemma batch_request_flag:
  "batch_request env self reqs kwargs = Inr (flag, rq, kw') \<Longrightarrow>
   flag = (case map_of kwargs ''raise_on_any_failure'' of None \<Rightarrow> PBool True | Some v \<Rightarrow> v)"
  by (auto simp: batch_request_eq batch_arguments_flag split: sum.splits)

lemma batch_request_multipart:
  "batch_request env self reqs kwargs = Inr (flag, rq, kw') \<Longrightarrow>
   multipart rq = Some (reqs, part_policies self, False)"
  by (auto simp: batch_request_eq split: sum.splits)

lemma read_parts_eq: "read_parts parts parts_list fx = (parts_list @ parts, fx @ map ReadPart parts)"
  by (induction parts arbitrary: parts_list fx) simp_all

lemma any_failure_iff:
  "any_failure parts_list \<longleftrightarrow> (\<exists>p \<in> set parts_list. \<not> (200 \<le> status_code p \<and> status_code p < 300))"
  by (auto simp: any_failure_def object_truth_def list_ex_iff)

lemma batch_try_not_202:
  "status_code response \<noteq> 202 \<Longrightarrow> batch_try flag response = (Inl (HttpResponseError response), [])"
  by (simp add: batch_try_def)

lemma batch_try_lazy:
  "status_code response = 202 \<Longrightarrow> \<not> truthy flag \<Longrightarrow>
   batch_try flag response = (Inr (AsyncIterator (payload response)), [CalledParts])"
  by (simp add: batch_try_def)

lemma batch_try_eager:
  "status_code response = 202 \<Longrightarrow> truthy flag \<Longrightarrow>
   batch_try flag response =
     (if any_failure (payload response)
      then Inl (PartialBatchErrorException ''There is a partial failure in the batch operation.''
                  response (payload response))
      else Inr (AsyncList (payload response)),
      CalledParts # map ReadPart (payload response))"
  by (simp add: batch_try_def read_parts_eq Let_def)

lemma batch_send_effects_head:
  "batch_request env self reqs kwargs = Inr (flag, rq, kw') \<Longrightarrow>
   \<exists>fx. snd (batch_send env self reqs kwargs) = PipelineRun rq kw' # fx"
  by (auto simp: batch_send_def split: sum.splits prod.splits)

lemma batch_send_post_raises:
  "batch_request env self reqs kwargs = Inl e \<Longrightarrow> batch_send env self reqs kwargs = (Inl e, [])"
  by (simp add: batch_send_def)

lemma batch_send_response:
  "batch_request env self reqs kwargs = Inr (flag, rq, kw') \<Longrightarrow> run env rq kw' = Inr response
   \<Longrightarrow> batch_send env self reqs kwargs =
       (case batch_try flag response of
          (Inr v, fx) \<Rightarrow> (Inr v, PipelineRun rq kw' # fx)
        | (Inl error, fx) \<Rightarrow>
            if is_HttpResponseError env error
            then (case process_storage_error error of
                    Inl e \<Rightarrow> (Inl e, PipelineRun rq kw' # fx)
                  | Inr _ \<Rightarrow> (Inr PyNone, PipelineRun rq kw' # fx))
            else (Inl error, PipelineRun rq kw' # fx))"
  by (simp add: batch_send_def)

subsection \<open>Building the pipeline\<close>

lemma set_transport_fields:
  "headers_policy (set_transport t c) = headers_policy c"
  "proxy_policy (set_transport t c) = proxy_policy c"
  "user_agent_policy (set_transport t c) = user_agent_policy c"
  "retry_policy (set_transport t c) = retry_policy c"
  "logging_policy (set_transport t c) = logging_policy c"
  "cfg_transport (set_transport t c) = t"
  by (cases c; simp)+

lemma set_transport_twice: "set_transport t (set_transport u c) = set_transport t c"
  by (cases c) simp

lemma setdefault_additional:
  "kw_additional_pipeline_policies (setdefault_read_timeout d (setdefault_connection_timeout d' kwargs))
     = kw_additional_pipeline_policies kwargs"
  by (cases kwargs) simp

lemma build_policies_eq:
  "build_policies config self kwargs =
     builtin_policies config self kwargs
     @ (case kw_additional_pipeline_policies kwargs of None \<Rightarrow> [] | Some extra \<Rightarrow> extra)"
  by (simp add: build_policies_def Let_def split: option.splits)

lemma classify_unsupported:
  "\<not> has_get_token c \<Longrightarrow> \<not> is_SharedKeyCredentialPolicy c \<Longrightarrow> \<not> is_AzureSasCredential c \<Longrightarrow>
   classify_credential scope (Some c) = Inl (TypeError (''Unsupported credential: '' @ cred_str c))"
  by (simp add: classify_credential_def)

lemma classify_Inl_iff:
  "classify_credential scope credential = Inl e \<longleftrightarrow>
     (\<exists>c. credential = Some c \<and> \<not> has_get_token c \<and> \<not> is_SharedKeyCredentialPolicy c
          \<and> \<not> is_AzureSasCredential c \<and> e = TypeError (''Unsupported credential: '' @ cred_str c))"
  by (auto simp: classify_credential_def split: option.splits if_splits)

lemma classify_Inr_supported:
  "classify_credential scope credential = Inr cp \<Longrightarrow>
   \<not> (\<exists>c. credential = Some c \<and> \<not> has_get_token c \<and> \<not> is_SharedKeyCredentialPolicy c
          \<and> \<not> is_AzureSasCredential c)"
  by (auto simp: classify_credential_def split: if_splits)

lemma create_pipeline_unsupported:
  "classify_credential (STORAGE_OAUTH_SCOPE env) credential = Inl e \<Longrightarrow>
   create_pipeline env self credential kwargs = (Inl e, self\<lparr>credential_policy := None\<rparr>, [])"
  by (simp add: create_pipeline_def)

lemma create_pipeline_client:
  "fst (snd (create_pipeline env self credential kwargs)) =
     self\<lparr>credential_policy :=
            (case classify_credential (STORAGE_OAUTH_SCOPE env) credential of
               Inl _ \<Rightarrow> None | Inr cp \<Rightarrow> cp)\<rparr>"
  by (simp add: create_pipeline_def Let_def split: sum.splits option.splits)

lemma create_pipeline_supplied:
  "classify_credential (STORAGE_OAUTH_SCOPE env) credential = Inr cp \<Longrightarrow> kw_pipeline kwargs = Some p \<Longrightarrow>
   create_pipeline env self credential kwargs =
     (Inr (case kw_configuration kwargs of Some c \<Rightarrow> c | None \<Rightarrow> create_configuration env kwargs, p),
      self\<lparr>credential_policy := cp\<rparr>,
      case kw_configuration kwargs of Some c \<Rightarrow> [] | None \<Rightarrow> [CalledCreateConfiguration])"
  by (simp add: create_pipeline_def Let_def split: option.splits)

lemma create_pipeline_no_transport:
  "classify_credential (STORAGE_OAUTH_SCOPE env) credential = Inr cp \<Longrightarrow> kw_pipeline kwargs = None \<Longrightarrow>
   kw_transport kwargs = None \<Longrightarrow> \<not> aiohttp_importable env \<Longrightarrow>
   create_pipeline env self credential kwargs =
     (Inl (ImportError ''Unable to create async transport. Please check aiohttp is installed.''),
      self\<lparr>credential_policy := cp\<rparr>,
      (case kw_configuration kwargs of Some c \<Rightarrow> [] | None \<Rightarrow> [CalledCreateConfiguration])
      @ [ImportedAioHttpTransport])"
  by (simp add: create_pipeline_def Let_def set_transport_fields split: option.splits)

lemma create_pipeline_built:
  "classify_credential (STORAGE_OAUTH_SCOPE env) credential = Inr cp \<Longrightarrow> kw_pipeline kwargs = None \<Longrightarrow>
   kw_transport kwargs \<noteq> None \<or> aiohttp_importable env \<Longrightarrow>
   \<exists>config t fx. create_pipeline env self credential kwargs =
     (Inr (config, AsyncPipeline (Some t)
        (build_policies config (self\<lparr>credential_policy := cp\<rparr>)
           (setdefault_read_timeout (READ_TIMEOUT env) (setdefault_connection_timeout (CONNECTION_TIMEOUT env) kwargs)))),
      self\<lparr>credential_policy := cp\<rparr>, fx)
     \<and> config = set_transport (Some t) (case kw_configuration kwargs of Some c \<Rightarrow> c | None \<Rightarrow> create_configuration env kwargs)
     \<and> t = (case kw_transport kwargs of Some u \<Rightarrow> u | None \<Rightarrow> AioHttpTransport (setdefault_read_timeout (READ_TIMEOUT env) (setdefault_connection_timeout (CONNECTION_TIMEOUT env) kwargs)))"
  by (cases "kw_configuration kwargs"; cases "kw_transport kwargs")
     (auto simp add: create_pipeline_def Let_def set_transport_fields set_transport_twice)

section \<open>The batch call\<close>

text \<open>
  Claim C1. A batch call whose flag \<open>raise_on_any_failure\<close> is true (passed so, or left to
  its default) and whose top-level response has status 202 raises PartialBatchFailure if
  and only if some part has a status outside [200, 300). When it raises, the exception
  carries the top-level response and all the parts, in order, the successful ones too;
  otherwise the call returns all the parts, in order. Either way every part has been read.
  This holds whether or not the \<open>except\<close> clause catches the partial failure. That the
  call has a top-level response says that \<open>post\<close> gave a request and \<open>run\<close> a response.
\<close>

theorem batch_send_partial_failure_iff:
  assumes "truthy (case map_of kwargs ''raise_on_any_failure'' of None \<Rightarrow> PBool True | Some v \<Rightarrow> v)"
    and "batch_request env self reqs kwargs = Inr (flag, rq, kw')"
    and "run env rq kw' = Inr response"
    and "status_code response = 202"
  shows "((\<exists>e. fst (batch_send env self reqs kwargs) = Inl e \<and> PartialBatchFailure e)
           \<longleftrightarrow> (\<exists>p \<in> set (payload response). \<not> (200 \<le> status_code p \<and> status_code p < 300)))
       \<and> fst (batch_send env self reqs kwargs) =
           (if \<exists>p \<in> set (payload response). \<not> (200 \<le> status_code p \<and> status_code p < 300)
            then Inl (PartialBatchErrorException ''There is a partial failure in the batch operation.''
                        response (payload response))
            else Inr (AsyncList (payload response)))
       \<and> snd (batch_send env self reqs kwargs) =
           PipelineRun rq kw' # CalledParts # map ReadPart (payload response)"
proof -
  have flag: "truthy flag"
    using assms(1) batch_request_flag [OF assms(2)] by simp
  show ?thesis
    using assms(3,4) flag
    by (cases "partial_batch_is_http_response_error env")
       (simp_all add: batch_send_response [OF assms(2)] batch_try_eager any_failure_iff)
qed

theorem batch_send_partial_failure_witness:
  "fst (batch_send (example_batch_env 202 [200, 404, 200] True) example_client example_reqs [])
     = Inl (PartialBatchErrorException ''There is a partial failure in the batch operation.''
              (example_response 202 [200, 404, 200])
              [HttpResponse 200 [] [] [], HttpResponse 404 [] [] [], HttpResponse 200 [] [] []])
   \<and> fst (batch_send (example_batch_env 202 [200, 200, 200] True) example_client example_reqs [])
     = Inr (AsyncList [HttpResponse 200 [] [] [], HttpResponse 200 [] [] [], HttpResponse 200 [] [] []])"
  using batch_send_partial_failure_iff
          [of "[]" "example_batch_env 202 [200, 404, 200] True" example_client example_reqs
              "PBool True" example_request "[]" "example_response 202 [200, 404, 200]"]
        batch_send_partial_failure_iff
          [of "[]" "example_batch_env 202 [200, 200, 200] True" example_client example_reqs
              "PBool True" example_request "[]" "example_response 202 [200, 200, 200]"]
  by (simp add: example_response_def example_batch_env_def example_client_def example_request_def
      example_post_def batch_request_def batch_arguments_def pop_kw_def set_multipart_mixed_def
      part_policies_def)

text \<open>
  Claim C2. A batch call whose top-level response has a status other than 202 raises the
  StorageServiceError decoded from that response. After the pipeline run nothing else
  happens: \<open>parts()\<close> is not called and no part is read. The failure is not a
  PartialBatchFailure.
\<close>

theorem batch_send_total_failure:
  assumes "batch_request env self reqs kwargs = Inr (flag, rq, kw')"
    and "run env rq kw' = Inr response"
    and "status_code response \<noteq> 202"
  shows "batch_send env self reqs kwargs =
           (Inl (StorageServiceError response), [PipelineRun rq kw'])
       \<and> \<not> PartialBatchFailure (StorageServiceError response)
       \<and> CalledParts \<notin> set (snd (batch_send env self reqs kwargs))
       \<and> list_all (\<lambda>e. \<forall>p. e \<noteq> ReadPart p) (snd (batch_send env self reqs kwargs))"
  using assms(2,3) by (simp add: batch_send_response [OF assms(1)] batch_try_not_202)

theorem batch_send_total_failure_witness:
  "batch_send (example_batch_env 500 [200, 200] True) example_client example_reqs []
     = (Inl (StorageServiceError (HttpResponse 500 [] [] [HttpResponse 200 [] [] [], HttpResponse 200 [] [] []])),
        [PipelineRun example_request []])"
  using batch_send_total_failure
          [of "example_batch_env 500 [200, 200] True" example_client example_reqs "[]"
              "PBool True" example_request "[]" "example_response 500 [200, 200]"]
  by (simp add: example_response_def example_batch_env_def example_client_def example_request_def
      example_post_def batch_request_def batch_arguments_def pop_kw_def set_multipart_mixed_def
      part_policies_def)

text \<open>
  Claim C4. With a top-level status of 202 and a false flag \<open>raise_on_any_failure\<close>, the
  call returns the iterator of \<open>response.parts()\<close> with no part read, whatever the
  statuses of the parts are, and raises nothing. The flag is what the caller passed under
  \<open>raise_on_any_failure\<close>, and \<open>True\<close> when the caller passed nothing.
\<close>

theorem batch_send_lazy:
  assumes "batch_request env self reqs kwargs = Inr (flag, rq, kw')"
    and "run env rq kw' = Inr response"
    and "status_code response = 202"
  shows "(\<not> truthy flag \<longrightarrow>
            batch_send env self reqs kwargs =
              (Inr (AsyncIterator (payload response)), [PipelineRun rq kw', CalledParts]))
       \<and> flag = (case map_of kwargs ''raise_on_any_failure'' of None \<Rightarrow> PBool True | Some v \<Rightarrow> v)
       \<and> (map_of kwargs ''raise_on_any_failure'' = None \<longrightarrow> truthy flag)"
  using assms(2,3) batch_request_flag [OF assms(1)]
  by (simp add: batch_send_response [OF assms(1)] batch_try_lazy)

theorem batch_send_lazy_witness:
  "batch_send (example_batch_env 202 [200, 404, 200] True) example_client example_reqs
       [(''raise_on_any_failure'', PBool False)]
     = (Inr (AsyncIterator [HttpResponse 200 [] [] [], HttpResponse 404 [] [] [], HttpResponse 200 [] [] []]),
        [PipelineRun example_request [], CalledParts])
   \<and> fst (batch_arguments example_client []) = PBool True"
  using batch_send_lazy
          [of "example_batch_env 202 [200, 404, 200] True" example_client example_reqs
              "[(''raise_on_any_failure'', PBool False)]" "PBool False" example_request "[]"
              "example_response 202 [200, 404, 200]"]
        batch_send_lazy
          [of "example_batch_env 202 [200, 404, 200] True" example_client example_reqs
              "[]" "PBool True" example_request "[]" "example_response 202 [200, 404, 200]"]
  by (simp add: example_response_def example_batch_env_def example_client_def example_request_def
      example_post_def batch_request_def batch_arguments_def pop_kw_def set_multipart_mixed_def
      part_policies_def)

text \<open>
  With a request factory that reads its \<open>url\<close> as a format template, and the path
  \<open>fs/{x}/y\<close>, the request handed to the pipeline goes to \<open>.../fs/y?comp=batch\<close>, which is
  not \<open>{scheme}://{host}/{path}?{restype}comp=batch{sas}{timeout}\<close> for this call.
\<close>

theorem batch_send_url_reformatted:
  "snd (batch_send \<lparr>post = template_post,
                    run = (\<lambda>request kwargs. Inr (example_response 500 [])),
                    partial_batch_is_http_response_error = True\<rparr>
          example_client example_reqs [(''path'', PStr ''fs/{x}/y'')])
     = [PipelineRun
          \<lparr>http_method = ''POST'',
           url = ''https://acct.dfs.core.windows.net/fs/y?comp=batch'',
           headers = [(''x-ms-version'', ''2021-08-06'')],
           multipart = Some (example_reqs, [StorageHeadersPolicy], False)\<rparr> []]
   \<and> scheme example_client @ ''://'' @ primary_hostname example_client @ ''/''
       @ kw_text [(''path'', PStr ''fs/{x}/y'')] ''path'' @ ''?''
       @ kw_text [(''path'', PStr ''fs/{x}/y'')] ''restype'' @ ''comp=batch''
       @ kw_text [(''path'', PStr ''fs/{x}/y'')] ''sas''
       @ kw_text [(''path'', PStr ''fs/{x}/y'')] ''timeout''
     = ''https://acct.dfs.core.windows.net/fs/{x}/y?comp=batch''
   \<and> ''https://acct.dfs.core.windows.net/fs/y?comp=batch''
       \<noteq> ''https://acct.dfs.core.windows.net/fs/{x}/y?comp=batch''"
  by (simp add: batch_send_def batch_request_def batch_arguments_def pop_kw_def template_post_def
      set_multipart_mixed_def part_policies_def batch_try_def example_response_def
      example_client_def kw_text_def)

text \<open>
  Claim C6, amended. The top-level request of a batch call is the request the client's
  \<open>post\<close> returns when called with the url
  \<open>{scheme}://{host}/{path}?{restype}comp=batch{sas}{timeout}\<close>, where \<open>path\<close>, \<open>restype\<close>,
  \<open>sas\<close> and \<open>timeout\<close> are the texts of the keyword arguments of these names (nothing when
  absent), and with the headers \<open>x-ms-version\<close>: the client's API version. Only the
  multipart body of that request is set before it is handed to the pipeline. When \<open>post\<close>
  raises, the exception leaves the call and nothing is sent.
\<close>

theorem batch_send_request_line:
  "(\<forall>rq0. post env (scheme self @ ''://'' @ primary_hostname self @ ''/'' @ kw_text kwargs ''path''
                     @ ''?'' @ kw_text kwargs ''restype'' @ ''comp=batch'' @ kw_text kwargs ''sas''
                     @ kw_text kwargs ''timeout'')
                    [(''x-ms-version'', api_version self)] = Inr rq0 \<longrightarrow>
      (\<exists>kw fx. snd (batch_send env self reqs kwargs) =
          PipelineRun (rq0\<lparr>multipart := Some (reqs, part_policies self, False)\<rparr>) kw # fx))
   \<and> (\<forall>e. post env (scheme self @ ''://'' @ primary_hostname self @ ''/'' @ kw_text kwargs ''path''
                     @ ''?'' @ kw_text kwargs ''restype'' @ ''comp=batch'' @ kw_text kwargs ''sas''
                     @ kw_text kwargs ''timeout'')
                    [(''x-ms-version'', api_version self)] = Inl e \<longrightarrow>
      batch_send env self reqs kwargs = (Inl e, []))"
proof (intro conjI allI impI)
  fix rq0
  assume "post env (scheme self @ ''://'' @ primary_hostname self @ ''/'' @ kw_text kwargs ''path''
                     @ ''?'' @ kw_text kwargs ''restype'' @ ''comp=batch'' @ kw_text kwargs ''sas''
                     @ kw_text kwargs ''timeout'')
                    [(''x-ms-version'', api_version self)] = Inr rq0"
  then have "batch_request env self reqs kwargs =
      Inr (fst (batch_arguments self kwargs),
           rq0\<lparr>multipart := Some (reqs, part_policies self, False)\<rparr>,
           snd (snd (snd (batch_arguments self kwargs))))"
    by (simp add: batch_request_eq batch_arguments_url)
  then show "\<exists>kw fx. snd (batch_send env self reqs kwargs) =
          PipelineRun (rq0\<lparr>multipart := Some (reqs, part_policies self, False)\<rparr>) kw # fx"
    using batch_send_effects_head by blast
next
  fix e
  assume "post env (scheme self @ ''://'' @ primary_hostname self @ ''/'' @ kw_text kwargs ''path''
                     @ ''?'' @ kw_text kwargs ''restype'' @ ''comp=batch'' @ kw_text kwargs ''sas''
                     @ kw_text kwargs ''timeout'')
                    [(''x-ms-version'', api_version self)] = Inl e"
  then have "batch_request env self reqs kwargs = Inl e"
    by (simp add: batch_request_eq batch_arguments_url)
  then show "batch_send env self reqs kwargs = (Inl e, [])"
    by (rule batch_send_post_raises)
qed

theorem batch_send_request_line_witness:
  "snd (batch_send (example_batch_env 202 [] True) example_client example_reqs
          [(''path'', PStr ''fs''), (''restype'', PStr ''restype=container&''),
           (''sas'', PStr ''&sig=abc''), (''timeout'', PInt 30)])
     = [PipelineRun
          \<lparr>http_method = ''POST'',
           url = ''https://acct.dfs.core.windows.net/fs?restype=container&comp=batch&sig=abc30'',
           headers = [(''x-ms-version'', ''2021-08-06'')],
           multipart = Some (example_reqs, [StorageHeadersPolicy], False)\<rparr> [],
        CalledParts]
   \<and> batch_send \<lparr>post = raising_post,
                  run = (\<lambda>request kwargs. Inr (example_response 202 [])),
                  partial_batch_is_http_response_error = True\<rparr>
        example_client example_reqs [(''path'', PStr ''{}'')]
     = (Inl (IndexError ''Replacement index 0 out of range for positional args tuple''), [])"
  using batch_send_request_line
          [of "example_batch_env 202 [] True" example_client
              "[(''path'', PStr ''fs''), (''restype'', PStr ''restype=container&''),
                (''sas'', PStr ''&sig=abc''), (''timeout'', PInt 30)]" example_reqs]
        batch_send_request_line
          [of "\<lparr>post = raising_post,
                run = (\<lambda>request kwargs. Inr (example_response 202 [])),
                partial_batch_is_http_response_error = True\<rparr>"
              example_client "[(''path'', PStr ''{}'')]" example_reqs]
  by (simp add: example_response_def example_batch_env_def example_client_def example_post_def
      raising_post_def batch_send_def batch_request_def batch_arguments_def pop_kw_def
      batch_try_def set_multipart_mixed_def any_failure_def part_policies_def kw_text_def)

text \<open>
  Claim C7. The sub-requests of a batch call are set as the multipart body of the request
  together with the policies each part goes through: the header policy alone when the
  client has no credential policy, the header policy followed by the credential policy
  otherwise, and nothing else. This is the request handed to the pipeline; the one call
  with no such request is the call in which \<open>post\<close> raised, and then nothing is sent.
  The client's credential policy is the one \<open>_create_pipeline\<close> resolved from the
  credential (none when it resolved none).
\<close>

theorem batch_send_part_policies:
  "(\<forall>flag rq kw'. batch_request env self reqs kwargs = Inr (flag, rq, kw') \<longrightarrow>
       (\<exists>fx. snd (batch_send env self reqs kwargs) = PipelineRun rq kw' # fx)
       \<and> multipart rq =
           Some (reqs,
                 (case credential_policy self of
                    None \<Rightarrow> [StorageHeadersPolicy]
                  | Some p \<Rightarrow> [StorageHeadersPolicy, p]),
                 False))
   \<and> (\<forall>e. batch_request env self reqs kwargs = Inl e \<longrightarrow>
         batch_send env self reqs kwargs = (Inl e, []))
   \<and> credential_policy (fst (snd (create_pipeline benv self0 credential pkwargs))) =
       (case classify_credential (STORAGE_OAUTH_SCOPE benv) credential of
          Inl _ \<Rightarrow> None | Inr cp \<Rightarrow> cp)"
proof -
  have pols: "part_policies self =
      (case credential_policy self of
         None \<Rightarrow> [StorageHeadersPolicy] | Some p \<Rightarrow> [StorageHeadersPolicy, p])"
    by (simp add: part_policies_def split: option.splits)
  show ?thesis
    using batch_send_effects_head [of env self reqs kwargs]
          batch_request_multipart [of env self reqs kwargs]
          batch_send_post_raises [of env self reqs kwargs]
    by (simp add: pols [symmetric] create_pipeline_client)
qed

theorem batch_send_part_policies_witness:
  "snd (batch_send (example_batch_env 500 [] True)
          (fst (snd (create_pipeline (example_env True) example_client
                       (Some (example_credential False True False))
                       (Kwargs None None (Some (SuppliedTransport ''t'')) None None None []))))
          example_reqs [])
     = [PipelineRun
          \<lparr>http_method = ''POST'',
           url = ''https://acct.dfs.core.windows.net/?comp=batch'',
           headers = [(''x-ms-version'', ''2021-08-06'')],
           multipart = Some (example_reqs,
                             [StorageHeadersPolicy,
                              SharedKeyCredentialPolicy (example_credential False True False)],
                             False)\<rparr> []]"
  using batch_send_part_policies
          [of "example_batch_env 500 [] True"
              "fst (snd (create_pipeline (example_env True) example_client
                       (Some (example_credential False True False))
                       (Kwargs None None (Some (SuppliedTransport ''t'')) None None None [])))"
              example_reqs "[]" "example_env True" example_client
              "Some (example_credential False True False)"
              "Kwargs None None (Some (SuppliedTransport ''t'')) None None None []"]
  by (simp add: create_pipeline_client classify_credential_def example_credential_def
      example_env_def example_response_def example_batch_env_def example_client_def
      example_post_def batch_send_def batch_request_def batch_arguments_def pop_kw_def
      batch_try_def set_multipart_mixed_def part_policies_def)

section \<open>Building the pipeline\<close>

text \<open>
  The call of \<open>_create_pipeline\<close> with no credential, a pipeline under \<open>_pipeline\<close>, no
  transport and no importable \<open>AioHttpTransport\<close> returns the pipeline it was given: the
  check of line 81 comes before the transport is looked for.
\<close>

theorem create_pipeline_prebuilt_skips_transport:
  "kw_transport (Kwargs None (Some (SuppliedPipeline ''prebuilt'')) None None None None []) = None
   \<and> \<not> aiohttp_importable (example_env False)
   \<and> create_pipeline (example_env False) example_client None
       (Kwargs None (Some (SuppliedPipeline ''prebuilt'')) None None None None [])
     = (Inr (example_config, SuppliedPipeline ''prebuilt''), example_client, [CalledCreateConfiguration])"
  by (simp add: create_pipeline_def classify_credential_def example_env_def example_client_def)

text \<open>
  Claim C3, amended. \<open>_create_pipeline\<close> fails with a ConfigurationError, with no pipeline
  constructed and no network I/O, in two cases: the credential is not \<open>None\<close>, has no
  \<open>get_token\<close> and is neither a \<open>SharedKeyCredentialPolicy\<close> nor an \<open>AzureSasCredential\<close>
  (a \<open>TypeError\<close>); or no pipeline is supplied under \<open>_pipeline\<close>, no transport is supplied
  and \<open>AioHttpTransport\<close> cannot be imported (an \<open>ImportError\<close>, unless the credential
  already gave the \<open>TypeError\<close>).
\<close>

theorem create_pipeline_configuration_error:
  assumes "(\<exists>c. credential = Some c \<and> \<not> has_get_token c \<and> \<not> is_SharedKeyCredentialPolicy c
               \<and> \<not> is_AzureSasCredential c)
           \<or> (kw_pipeline kwargs = None \<and> kw_transport kwargs = None \<and> \<not> aiohttp_importable env)"
  shows "\<exists>e self' fx. create_pipeline env self credential kwargs = (Inl e, self', fx)
           \<and> ConfigurationError e
           \<and> e = (case classify_credential (STORAGE_OAUTH_SCOPE env) credential of
                    Inl t \<Rightarrow> t
                  | Inr _ \<Rightarrow> ImportError ''Unable to create async transport. Please check aiohttp is installed.'')
           \<and> ConstructedAsyncPipeline \<notin> set fx
           \<and> list_all (\<lambda>x. \<not> is_network_io x) fx"
proof (cases "classify_credential (STORAGE_OAUTH_SCOPE env) credential")
  case (Inl e)
  then obtain c :: credential where "e = TypeError (''Unsupported credential: '' @ cred_str c)"
    by (auto simp: classify_Inl_iff)
  with Inl show ?thesis
    by (simp add: create_pipeline_unsupported)
next
  case (Inr cp)
  then have "\<not> (\<exists>c. credential = Some c \<and> \<not> has_get_token c \<and> \<not> is_SharedKeyCredentialPolicy c
               \<and> \<not> is_AzureSasCredential c)"
    by (rule classify_Inr_supported)
  with assms have "kw_pipeline kwargs = None" "kw_transport kwargs = None" "\<not> aiohttp_importable env"
    by blast+
  with Inr show ?thesis
    by (simp add: create_pipeline_no_transport split: option.splits)
qed

theorem create_pipeline_configuration_error_witness:
  "create_pipeline (example_env True) example_client (Some (example_credential False False False))
       (Kwargs None None (Some (SuppliedTransport ''t'')) None None None [])
     = (Inl (TypeError ''Unsupported credential: cred''), example_client, [])
   \<and> create_pipeline (example_env False) example_client (Some (example_credential False False True))
       (Kwargs None None None None None None [])
     = (Inl (ImportError ''Unable to create async transport. Please check aiohttp is installed.''),
        example_client\<lparr>credential_policy := Some (AzureSasCredentialPolicy (example_credential False False True))\<rparr>,
        [CalledCreateConfiguration, ImportedAioHttpTransport])"
  using create_pipeline_configuration_error
          [of "Some (example_credential False False False)"
              "Kwargs None None (Some (SuppliedTransport ''t'')) None None None []"
              "example_env True" example_client]
        create_pipeline_configuration_error
          [of "Some (example_credential False False True)"
              "Kwargs None None None None None None []"
              "example_env False" example_client]
  by (auto simp: example_credential_def example_env_def example_client_def classify_credential_def
        create_pipeline_def example_config_def)

text \<open>
  The chain built for a SAS credential and a supplied transport is not the chain of
  section 4.2: after the credential policy (slot 6) comes \<open>ContentDecodePolicy\<close> (slot 7),
  where section 4.2 has the redirect policy.
\<close>

theorem create_pipeline_chain_has_content_decode:
  "built_chain (create_pipeline (example_env True) example_client
       (Some (example_credential False False True))
       (Kwargs None None (Some (SuppliedTransport ''t'')) None None None []))
     \<noteq> spec_policy_chain example_config
         (example_client\<lparr>credential_policy := Some (AzureSasCredentialPolicy (example_credential False False True))\<rparr>)
         (Kwargs None None (Some (SuppliedTransport ''t'')) (Some (PInt 20)) (Some (PInt 60)) None [])
   \<and> built_chain (create_pipeline (example_env True) example_client
       (Some (example_credential False False True))
       (Kwargs None None (Some (SuppliedTransport ''t'')) None None None [])) ! 6
     = Some (AzureSasCredentialPolicy (example_credential False False True))
   \<and> built_chain (create_pipeline (example_env True) example_client
       (Some (example_credential False False True))
       (Kwargs None None (Some (SuppliedTransport ''t'')) None None None [])) ! 7
     = Some (ContentDecodePolicy ''utf-8'')
   \<and> spec_policy_chain example_config
         (example_client\<lparr>credential_policy := Some (AzureSasCredentialPolicy (example_credential False False True))\<rparr>)
         (Kwargs None None (Some (SuppliedTransport ''t'')) (Some (PInt 20)) (Some (PInt 60)) None []) ! 7
     = Some (AsyncRedirectPolicy (Kwargs None None (Some (SuppliedTransport ''t'')) (Some (PInt 20)) (Some (PInt 60)) None []))"
  by (simp add: create_pipeline_def classify_credential_def example_env_def example_client_def
      example_credential_def example_config_def built_chain_def build_policies_def
      builtin_policies_def spec_policy_chain_def Let_def)

text \<open>
  Claim C5, amended. Whenever \<open>_create_pipeline\<close> builds a pipeline (the credential is
  supported or absent, no pipeline is supplied, and a transport is supplied or can be
  imported), its policy list is a function of the inputs alone and is, in this order:
  message-shape encoding, the configuration's headers, proxy and user-agent policies,
  content validation, request hook, the credential policy (\<open>None\<close> when there is none),
  response content decoding (UTF-8), redirect, host selection, the configuration's retry
  and logging policies, response hook, distributed tracing, HTTP logging; then the
  caller's additional policies, in their order, after all of these.
\<close>

theorem create_pipeline_policy_order:
  assumes "classify_credential (STORAGE_OAUTH_SCOPE env) credential = Inr cp"
    and "kw_pipeline kwargs = None"
    and "kw_transport kwargs \<noteq> None \<or> aiohttp_importable env"
    and "kwargs2 = setdefault_read_timeout (READ_TIMEOUT env)
                     (setdefault_connection_timeout (CONNECTION_TIMEOUT env) kwargs)"
    and "cfg = (case kw_configuration kwargs of Some c \<Rightarrow> c | None \<Rightarrow> create_configuration env kwargs)"
  shows "(\<exists>config t. fst (create_pipeline env self credential kwargs)
                      = Inr (config, AsyncPipeline t (built_chain (create_pipeline env self credential kwargs))))
       \<and> built_chain (create_pipeline env self credential kwargs) =
           [Some QueueMessagePolicy,
            headers_policy cfg, proxy_policy cfg, user_agent_policy cfg,
            Some StorageContentValidation,
            Some (StorageRequestHook kwargs2),
            cp,
            Some (ContentDecodePolicy ''utf-8''),
            Some (AsyncRedirectPolicy kwargs2),
            Some (StorageHosts (client_hosts self) kwargs2),
            retry_policy cfg,
            logging_policy cfg,
            Some (AsyncStorageResponseHook kwargs2),
            Some (DistributedTracingPolicy kwargs2),
            Some (HttpLoggingPolicy kwargs2)]
           @ (case kw_additional_pipeline_policies kwargs of None \<Rightarrow> [] | Some extra \<Rightarrow> extra)"
proof -
  obtain config t fx where r: "create_pipeline env self credential kwargs =
     (Inr (config, AsyncPipeline (Some t) (build_policies config (self\<lparr>credential_policy := cp\<rparr>) kwargs2)),
      self\<lparr>credential_policy := cp\<rparr>, fx)"
    and c: "config = set_transport (Some t) cfg"
    using create_pipeline_built [OF assms(1-3), of self] assms(4,5) by blast
  show ?thesis
    by (simp add: r c built_chain_def build_policies_eq builtin_policies_def set_transport_fields
        assms(4) setdefault_additional)
qed

theorem create_pipeline_policy_order_witness:
  "built_chain (create_pipeline (example_env True) example_client
       (Some (example_credential True False False))
       (Kwargs None None None None (Some (PInt 5)) (Some [Some (SuppliedPolicy ''extra'')]) []))
     = [Some QueueMessagePolicy,
        Some (SuppliedPolicy ''headers''), Some (SuppliedPolicy ''proxy''),
        Some (SuppliedPolicy ''user-agent''),
        Some StorageContentValidation,
        Some (StorageRequestHook (Kwargs None None None (Some (PInt 20)) (Some (PInt 5)) (Some [Some (SuppliedPolicy ''extra'')]) [])),
        Some (AsyncBearerTokenCredentialPolicy (example_credential True False False) ''https://storage.azure.com/.default''),
        Some (ContentDecodePolicy ''utf-8''),
        Some (AsyncRedirectPolicy (Kwargs None None None (Some (PInt 20)) (Some (PInt 5)) (Some [Some (SuppliedPolicy ''extra'')]) [])),
        Some (StorageHosts [(''primary'', ''acct.dfs.core.windows.net'')] (Kwargs None None None (Some (PInt 20)) (Some (PInt 5)) (Some [Some (SuppliedPolicy ''extra'')]) [])),
        Some (SuppliedPolicy ''retry''), Some (SuppliedPolicy ''logging''),
        Some (AsyncStorageResponseHook (Kwargs None None None (Some (PInt 20)) (Some (PInt 5)) (Some [Some (SuppliedPolicy ''extra'')]) [])),
        Some (DistributedTracingPolicy (Kwargs None None None (Some (PInt 20)) (Some (PInt 5)) (Some [Some (SuppliedPolicy ''extra'')]) [])),
        Some (HttpLoggingPolicy (Kwargs None None None (Some (PInt 20)) (Some (PInt 5)) (Some [Some (SuppliedPolicy ''extra'')]) [])),
        Some (SuppliedPolicy ''extra'')]"
  using create_pipeline_policy_order
          [of "example_env True" "Some (example_credential True False False)"
              "Some (AsyncBearerTokenCredentialPolicy (example_credential True False False) ''https://storage.azure.com/.default'')"
              "Kwargs None None None None (Some (PInt 5)) (Some [Some (SuppliedPolicy ''extra'')]) []"
              "Kwargs None None None (Some (PInt 20)) (Some (PInt 5)) (Some [Some (SuppliedPolicy ''extra'')]) []"
              example_config example_client]
  by (simp add: classify_credential_def example_credential_def example_env_def example_client_def
      example_config_def)

text \<open>
  Claim C10. When a pipeline is supplied under \<open>_pipeline\<close>, the credential is classified
  first: an unsupported credential raises all the same, and then the client has no
  credential policy. Otherwise the call returns the supplied pipeline itself, unchanged,
  with the configuration (the supplied one, or a created one); the resolved credential
  policy is recorded on the client; no pipeline is constructed.
\<close>

theorem create_pipeline_prebuilt:
  assumes "kw_pipeline kwargs = Some p"
  shows "(\<forall>c. credential = Some c \<and> \<not> has_get_token c \<and> \<not> is_SharedKeyCredentialPolicy c
              \<and> \<not> is_AzureSasCredential c \<longrightarrow>
            create_pipeline env self credential kwargs =
              (Inl (TypeError (''Unsupported credential: '' @ cred_str c)),
               self\<lparr>credential_policy := None\<rparr>, []))
       \<and> (\<forall>cp. classify_credential (STORAGE_OAUTH_SCOPE env) credential = Inr cp \<longrightarrow>
            fst (create_pipeline env self credential kwargs) =
              Inr (case kw_configuration kwargs of Some c \<Rightarrow> c | None \<Rightarrow> create_configuration env kwargs, p)
            \<and> fst (snd (create_pipeline env self credential kwargs)) = self\<lparr>credential_policy := cp\<rparr>)
       \<and> ConstructedAsyncPipeline \<notin> set (snd (snd (create_pipeline env self credential kwargs)))"
proof (cases "classify_credential (STORAGE_OAUTH_SCOPE env) credential")
  case (Inl e)
  then show ?thesis
    by (auto simp: create_pipeline_unsupported classify_unsupported)
next
  case (Inr cp)
  have "create_pipeline env self credential kwargs =
     (Inr (case kw_configuration kwargs of Some c \<Rightarrow> c | None \<Rightarrow> create_configuration env kwargs, p),
      self\<lparr>credential_policy := cp\<rparr>,
      case kw_configuration kwargs of Some c \<Rightarrow> [] | None \<Rightarrow> [CalledCreateConfiguration])"
    using Inr assms by (rule create_pipeline_supplied)
  moreover have "\<not> (\<exists>c. credential = Some c \<and> \<not> has_get_token c \<and> \<not> is_SharedKeyCredentialPolicy c
               \<and> \<not> is_AzureSasCredential c)"
    using Inr by (rule classify_Inr_supported)
  ultimately show ?thesis using Inr
    by (auto split: option.splits)
qed

theorem create_pipeline_prebuilt_witness:
  "create_pipeline (example_env False) example_client (Some (example_credential False False True))
       (Kwargs None (Some (AsyncPipeline None [Some QueueMessagePolicy])) None None None None [])
     = (Inr (example_config, AsyncPipeline None [Some QueueMessagePolicy]),
        example_client\<lparr>credential_policy := Some (AzureSasCredentialPolicy (example_credential False False True))\<rparr>,
        [CalledCreateConfiguration])
   \<and> create_pipeline (example_env False) example_client (Some (example_credential False False False))
       (Kwargs None (Some (AsyncPipeline None [Some QueueMessagePolicy])) None None None None [])
     = (Inl (TypeError ''Unsupported credential: cred''), example_client, [])"
  using create_pipeline_prebuilt
          [of "Kwargs None (Some (AsyncPipeline None [Some QueueMessagePolicy])) None None None None []"
              "AsyncPipeline None [Some QueueMessagePolicy]" "Some (example_credential False False True)"
              "example_env False" example_client]
        create_pipeline_prebuilt
          [of "Kwargs None (Some (AsyncPipeline None [Some QueueMessagePolicy])) None None None None []"
              "AsyncPipeline None [Some QueueMessagePolicy]" "Some (example_credential False False False)"
              "example_env False" example_client]
  by (simp add: create_pipeline_def classify_credential_def example_credential_def
      example_env_def example_client_def Let_def)

section \<open>The transport wrapper and the synchronous \<open>with\<close>\<close>

text \<open>
  Claim C8. \<open>send\<close> of the wrapper is \<open>send\<close> of the wrapped transport: same result, same
  change of the transport's state. \<open>open\<close>, \<open>close\<close>, \<open>__aenter__\<close> and \<open>__aexit__\<close> of the
  wrapper return nothing and leave the state of the wrapped transport as it is, so a
  \<open>send\<close> on the wrapped transport after the wrapper's \<open>close\<close> or \<open>__aexit__\<close> does what
  it would have done before.
\<close>

theorem transport_wrapper_delegates:
  "send self request kwargs s = transport_send (wrapped_transport self) request kwargs s
   \<and> open_wrapper self s = ((), s)
   \<and> close self s = ((), s)
   \<and> aenter self s = ((), s)
   \<and> aexit self args s = ((), s)
   \<and> transport_send (wrapped_transport self) request kwargs (snd (close self s))
       = transport_send (wrapped_transport self) request kwargs s
   \<and> transport_send (wrapped_transport self) request kwargs (snd (aexit self args s))
       = transport_send (wrapped_transport self) request kwargs s
   \<and> wrapped_transport (init t) = t"
  by (simp add: send_def open_wrapper_def close_def aenter_def aexit_def init_def)

theorem transport_wrapper_delegates_witness:
  "send (init session_transport) ''GET /'' () \<lparr>is_open = True, sent = []\<rparr>
     = (Some ''response to GET /'', \<lparr>is_open = True, sent = [''GET /'']\<rparr>)
   \<and> transport_send session_transport ''GET /'' ()
        (snd (close (init session_transport) \<lparr>is_open = True, sent = []\<rparr>))
     = (Some ''response to GET /'', \<lparr>is_open = True, sent = [''GET /'']\<rparr>)
   \<and> transport_send session_transport ''GET /'' ()
        (transport_close session_transport \<lparr>is_open = True, sent = []\<rparr>)
     = (None, \<lparr>is_open = False, sent = []\<rparr>)"
  using transport_wrapper_delegates
          [of "init session_transport" "''GET /''" "()" "\<lparr>is_open = True, sent = []\<rparr>" "()"
              session_transport]
  by (simp add: session_transport_def init_def)

text \<open>
  Claim C9. \<open>__enter__\<close> of a client always raises, a ConfigurationError whose message
  names \<open>async with\<close>; the client is unchanged and nothing else has happened.
\<close>

theorem enter_raises:
  "enter self =
     (Inl (TypeError (''Async client only supports '' @ [CHR 0x27] @ ''async with'' @ [CHR 0x27] @ ''.'')),
      self, [])
   \<and> (\<exists>msg pre post. fst (enter self) = Inl (TypeError msg) \<and> ConfigurationError (TypeError msg)
          \<and> msg = pre @ ''async with'' @ post)"
proof -
  have "''Async client only supports '' @ [CHR 0x27] @ ''async with'' @ [CHR 0x27] @ ''.''
          = (''Async client only supports '' @ [CHR 0x27]) @ ''async with'' @ ([CHR 0x27] @ ''.'')"
    by simp
  then show ?thesis
    unfolding enter_def by (metis ConfigurationError.simps(1) fst_conv)
qed

theorem enter_raises_witness:
  "fst (enter example_client)
     = Inl (TypeError (''Async client only supports '' @ [CHR 0x27] @ ''async with'' @ [CHR 0x27] @ ''.''))
   \<and> fst (snd (enter example_client)) = example_client
   \<and> snd (snd (enter example_client)) = []"
  using enter_raises [of example_client] by simp

end
